theory Spec2Isabelle
  imports Main "HOL-Library.Option_ord" "HOL-Library.Sublist"
begin

section \<open>Python strings\<close>

text \<open>
  A Python \<open>str\<close> is a sequence of Unicode code points and \<open>len\<close> counts code points,
  so a string is modelled as the list of its code points. \<open>lit\<close> embeds an ASCII literal
  of the source.
\<close>

type_synonym codepoint = nat
type_synonym pystr = "codepoint list"

definition lit :: "string \<Rightarrow> pystr" where
  "lit s = map of_char s"

text \<open>
  \<open>str.strip()\<close> without argument removes the leading and trailing code points for which
  \<open>str.isspace\<close> holds. The set is the one of CPython's \<open>_PyUnicode_IsWhitespace\<close>:
  U+0009..U+000D, U+001C..U+0020, U+0085, U+00A0, U+1680, U+2000..U+200A, U+2028, U+2029,
  U+202F, U+205F and U+3000.
\<close>

definition isspace :: "codepoint \<Rightarrow> bool" where
  "isspace c \<longleftrightarrow>
     (0x09 \<le> c \<and> c \<le> 0x0D) \<or> (0x1C \<le> c \<and> c \<le> 0x20) \<or> c = 0x85 \<or> c = 0xA0 \<or>
     c = 0x1680 \<or> (0x2000 \<le> c \<and> c \<le> 0x200A) \<or> c = 0x2028 \<or> c = 0x2029 \<or>
     c = 0x202F \<or> c = 0x205F \<or> c = 0x3000"

definition strip :: "pystr \<Rightarrow> pystr" where
  "strip s = rev (dropWhile isspace (rev (dropWhile isspace s)))"

text \<open>\<open>sep.join(xs)\<close>: the elements of \<open>xs\<close> with \<open>sep\<close> between consecutive ones.\<close>

fun join :: "pystr \<Rightarrow> pystr list \<Rightarrow> pystr" where
  "join sep [] = []"
| "join sep [x] = x"
| "join sep (x # y # ys) = x @ sep @ join sep (y # ys)"

section \<open>The explanation generator\<close>

text \<open>
  \<open>generate_explanation\<close> of \<open>main.py\<close>: the list \<open>sections\<close> grows by eight \<open>append\<close>
  calls, the header is the f-string \<open>Topic: {topic_clean}\<close>, a newline and \<open>"=" * (7 +
  len(topic_clean))\<close>, the body is \<open>"\n\n".join(sections)\<close>.
\<close>

definition generate_explanation :: "pystr \<Rightarrow> pystr" where
  "generate_explanation topic =
    (let topic_clean = strip topic;
         sections = [];
         sections = sections @ [lit ''Quick summary\<newline>- '' @ topic_clean @
           lit '' in one sentence: [A clear, simple definition].''];
         sections = sections @ [lit ''Key ideas\<newline>- Concept 1: what it is and why it matters\<newline>- Concept 2: how it connects\<newline>- Concept 3: common pitfalls''];
         sections = sections @ [lit ''Step-by-step breakdown\<newline>1) Start with the core definition\<newline>2) Build an intuitive picture\<newline>3) Add the formal detail\<newline>4) Work through a tiny example\<newline>5) Check your understanding''];
         sections = sections @ [lit ''Analogy\<newline>- Imagine you're explaining it to a 10-year-old using a real-life story.''];
         sections = sections @ [lit ''Worked example\<newline>- Problem: a small, realistic question about the topic\<newline>- Solution: show the steps with 1-2 short calculations or bullet points''];
         sections = sections @ [lit ''Common mistakes\<newline>- Misunderstanding A\<newline>- Misunderstanding B\<newline>- Shortcut to avoid them''];
         sections = sections @ [lit ''Rapid self-quiz\<newline>- Q1: ...\<newline>- Q2: ...\<newline>- Q3: ...\<newline>(Answer in your head first, then check with notes)''];
         sections = sections @ [lit ''Mini study plan (20 minutes)\<newline>- 5m: review summary + key ideas\<newline>- 10m: do 2 tiny problems\<newline>- 5m: reflect: what still feels fuzzy?''];
         header = lit ''Topic: '' @ topic_clean @ lit ''\<newline>'' @
           replicate (7 + length topic_clean) (of_char CHR ''='');
         body = join (lit ''\<newline>\<newline>'') sections
     in header @ lit ''\<newline>\<newline>'' @ body)"

section \<open>Documents and the store\<close>

text \<open>
  A timestamp is the number of microseconds since the epoch (the resolution of
  \<open>datetime\<close>); all of them are in UTC, so their order is the order of the numbers.
  An \<open>ObjectId\<close> is the number its twelve bytes spell. A document is a Python \<open>dict\<close>
  with string keys: an association list in insertion order, with distinct keys.
  \<open>StrOf v\<close> is the text \<open>str(v)\<close> of a value that is not a string and \<open>IsoFormat t\<close>
  the text \<open>t.isoformat()\<close>; both texts are kept symbolic.
\<close>

type_synonym datetime = int
type_synonym objectid = nat

datatype pyval = Str pystr | DateTime datetime | ObjectId objectid | StrOf pyval | IsoFormat datetime

type_synonym doc = "(string \<times> pyval) list"

datatype error = ValidationError | HTTPException nat pystr | KeyError string | PyMongoError

definition py_str :: "pyval \<Rightarrow> pyval" where
  "py_str v = (case v of Str s \<Rightarrow> Str s | IsoFormat t \<Rightarrow> IsoFormat t | StrOf u \<Rightarrow> StrOf u | _ \<Rightarrow> StrOf v)"

text \<open>\<open>d[k] = v\<close>: replaces the value of an existing key in place, appends a new key.\<close>

primrec dict_set :: "doc \<Rightarrow> string \<Rightarrow> pyval \<Rightarrow> doc" where
  "dict_set [] k v = [(k, v)]"
| "dict_set (p # ps) k v = (if fst p = k then (k, v) # ps else p # dict_set ps k v)"

definition dict_pop :: "doc \<Rightarrow> string \<Rightarrow> doc" where
  "dict_pop d k = filter (\<lambda>p. fst p \<noteq> k) d"

text \<open>
  \<open>to_str_id\<close> of \<open>main.py\<close>: a copy of the document in which \<open>_id\<close>, when present, is
  replaced by the key \<open>id\<close> holding its text, and every datetime by its ISO-8601 text.
\<close>

definition to_str_id :: "doc \<Rightarrow> doc" where
  "to_str_id doc =
    (let d = doc;
         d = (case map_of d ''_id'' of
                Some v \<Rightarrow> dict_set (dict_pop d ''_id'') ''id'' (py_str v)
              | None \<Rightarrow> d)
     in map (\<lambda>(k, v). (k, case v of DateTime t \<Rightarrow> IsoFormat t | _ \<Rightarrow> v)) d)"

text \<open>
  The store behind the handle \<open>db\<close> (module \<open>database\<close>, a document database reached
  through pymongo): the two collections the program uses, in insertion order, and the source
  of fresh identifiers. A call of the gateway can raise (the server is unreachable, a write
  is refused): \<open>insert_one_raises st k\<close> says whether the call of \<open>insert_one\<close> that
  follows \<open>k\<close> earlier ones raises, and \<open>update_one_raises\<close> whether \<open>update_one\<close> does.
  \<open>insert_one_calls\<close> and \<open>update_one_calls\<close> count the calls; no handler reads
  \<open>update_one_calls\<close>. A document is kept with the timestamps handed to \<open>insert_one\<close>;
  that the database keeps a datetime to the millisecond is not modelled.
\<close>

record store =
  studysession :: "doc list"
  message :: "doc list"
  next_oid :: objectid
  insert_one_raises :: "nat \<Rightarrow> bool"
  insert_one_calls :: nat
  update_one_raises :: bool
  update_one_calls :: nat

text \<open>
  \<open>insert_one\<close>: a call that raises stores nothing. Otherwise a document without \<open>_id\<close>
  gets a fresh \<open>ObjectId\<close>, which is also written into the caller's dict; the result is
  the inserted id, the caller's dict after the call, the collection and the next fresh id.
  A document that has an \<open>_id\<close> is stored as it is; the program never passes one.
\<close>

definition insert_one :: "bool \<Rightarrow> doc list \<Rightarrow> objectid \<Rightarrow> doc \<Rightarrow> error + pyval \<times> doc \<times> doc list \<times> objectid" where
  "insert_one raises coll fresh d =
    (if raises then Inl PyMongoError
     else case map_of d ''_id'' of
       None \<Rightarrow> (let d' = dict_set d ''_id'' (ObjectId fresh) in Inr (ObjectId fresh, d', coll @ [d'], Suc fresh))
     | Some v \<Rightarrow> Inr (v, d, coll @ [d], fresh))"

definition insert_studysession :: "store \<Rightarrow> doc \<Rightarrow> (error + pyval \<times> doc) \<times> store" where
  "insert_studysession st d =
    (let called = st\<lparr>insert_one_calls := Suc (insert_one_calls st)\<rparr>
     in case insert_one (insert_one_raises st (insert_one_calls st)) (studysession st) (next_oid st) d of
          Inl e \<Rightarrow> (Inl e, called)
        | Inr (inserted_id, d', coll, fresh) \<Rightarrow>
            (Inr (inserted_id, d'), called\<lparr>studysession := coll, next_oid := fresh\<rparr>))"

definition insert_message :: "store \<Rightarrow> doc \<Rightarrow> (error + pyval \<times> doc) \<times> store" where
  "insert_message st d =
    (let called = st\<lparr>insert_one_calls := Suc (insert_one_calls st)\<rparr>
     in case insert_one (insert_one_raises st (insert_one_calls st)) (message st) (next_oid st) d of
          Inl e \<Rightarrow> (Inl e, called)
        | Inr (inserted_id, d', coll, fresh) \<Rightarrow>
            (Inr (inserted_id, d'), called\<lparr>message := coll, next_oid := fresh\<rparr>))"

text \<open>
  \<open>ObjectId(s)\<close> on a string, as the \<open>bson\<close> package has it: a string of 24 characters
  that \<open>bytes.fromhex\<close> accepts, and \<open>InvalidId\<close> (here \<open>None\<close>) otherwise.
  \<open>bytes.fromhex\<close> reads pairs of hexadecimal digits and skips ASCII whitespace before a
  pair, so the 24 characters can spell fewer than twelve bytes.
  \<open>ObjectId.is_valid(s)\<close> is whether \<open>ObjectId(s)\<close> does not raise. \<open>binary\<close> is the
  twelve bytes of a stored identifier.
\<close>

definition hexval :: "codepoint \<Rightarrow> nat option" where
  "hexval c =
    (if 48 \<le> c \<and> c \<le> 57 then Some (c - 48)
     else if 97 \<le> c \<and> c \<le> 102 then Some (c - 87)
     else if 65 \<le> c \<and> c \<le> 70 then Some (c - 55)
     else None)"

definition ascii_space :: "codepoint \<Rightarrow> bool" where
  "ascii_space c \<longleftrightarrow> (0x09 \<le> c \<and> c \<le> 0x0D) \<or> c = 0x20"

fun fromhex :: "pystr \<Rightarrow> nat list option" where
  "fromhex [] = Some []"
| "fromhex [c] = (if ascii_space c then Some [] else None)"
| "fromhex (c # d # ds) =
     (if ascii_space c then fromhex (d # ds)
      else case hexval c of
        None \<Rightarrow> None
      | Some hi \<Rightarrow>
         (case hexval d of
            None \<Rightarrow> None
          | Some lo \<Rightarrow> map_option (\<lambda>bs. (16 * hi + lo) # bs) (fromhex ds)))"

definition ObjectId_of :: "pystr \<Rightarrow> nat list option" where
  "ObjectId_of s = (if length s = 24 then fromhex s else None)"

definition ObjectId_is_valid :: "pystr \<Rightarrow> bool" where
  "ObjectId_is_valid s \<longleftrightarrow> s \<noteq> [] \<and> ObjectId_of s \<noteq> None"

primrec big_endian :: "nat \<Rightarrow> nat \<Rightarrow> nat list" where
  "big_endian 0 n = []"
| "big_endian (Suc k) n = big_endian k (n div 256) @ [n mod 256]"

definition binary :: "objectid \<Rightarrow> nat list" where
  "binary n = big_endian 12 n"

text \<open>
  \<open>update_one({"_id": oid}, {"$set": {field: v}})\<close>: the first document whose \<open>_id\<close> has
  the bytes \<open>oid\<close> gets the field; no document matching is not an error. Bytes that are
  not twelve match no stored identifier.
\<close>

definition has_id :: "nat list \<Rightarrow> doc \<Rightarrow> bool" where
  "has_id oid d = (case map_of d ''_id'' of Some (ObjectId n) \<Rightarrow> binary n = oid | _ \<Rightarrow> False)"

primrec update_first :: "(doc \<Rightarrow> bool) \<Rightarrow> (doc \<Rightarrow> doc) \<Rightarrow> doc list \<Rightarrow> doc list" where
  "update_first P f [] = []"
| "update_first P f (d # ds) = (if P d then f d # ds else d # update_first P f ds)"

definition update_one :: "doc list \<Rightarrow> nat list \<Rightarrow> string \<Rightarrow> pyval \<Rightarrow> doc list" where
  "update_one coll oid field v = update_first (has_id oid) (\<lambda>d. dict_set d field v) coll"





section \<open>The world: the database handle and the clock\<close>

text \<open>
  \<open>db\<close> is the module-level handle, \<open>None\<close> when no database is configured.
  \<open>datetime.now(timezone.utc)\<close> reads the system clock: \<open>clock w k\<close> is the value of the
  \<open>k\<close>-th reading and \<open>reads w\<close> the number of readings so far.
\<close>

record world =
  db :: "store option"
  clock :: "nat \<Rightarrow> datetime"
  reads :: nat

definition now_utc :: "world \<Rightarrow> datetime \<times> world" where
  "now_utc w = (clock w (reads w), w\<lparr>reads := Suc (reads w)\<rparr>)"

section \<open>Request models\<close>

text \<open>
  \<open>CreateSessionRequest\<close> and \<open>PostMessageRequest\<close>: the \<open>Field\<close> constraints
  \<open>min_length\<close> and \<open>max_length\<close> bound the length of the string as received. The result
  is the validated field.
\<close>

definition CreateSessionRequest :: "pystr \<Rightarrow> error + pystr" where
  "CreateSessionRequest title =
     (if 1 \<le> length title \<and> length title \<le> 200 then Inr title else Inl ValidationError)"

definition PostMessageRequest :: "pystr \<Rightarrow> error + pystr" where
  "PostMessageRequest content = (if 1 \<le> length content then Inr content else Inl ValidationError)"

section \<open>The study tool API\<close>

definition not_configured :: error where
  "not_configured = HTTPException 500 (lit ''Database not configured'')"

text \<open>
  \<open>create_session\<close>, on the validated \<open>req.title\<close>. No handler catches an exception of
  the gateway: it ends the call.
\<close>

definition create_session :: "world \<Rightarrow> pystr \<Rightarrow> (error + doc) \<times> world" where
  "create_session w req_title =
    (case db w of
       None \<Rightarrow> (Inl not_configured, w)
     | Some st \<Rightarrow>
        (let (now, w) = now_utc w;
             data = [(''title'', Str (strip req_title)), (''created_at'', DateTime now),
                     (''updated_at'', DateTime now)]
         in case insert_studysession st data of
              (Inl e, st) \<Rightarrow> (Inl e, w\<lparr>db := Some st\<rparr>)
            | (Inr (inserted_id, data), st) \<Rightarrow>
               (let w = w\<lparr>db := Some st\<rparr>
                in case map_of data ''title'' of
                     None \<Rightarrow> (Inl (KeyError ''title''), w)
                   | Some t \<Rightarrow> (Inr [(''id'', py_str inserted_id), (''title'', t)], w))))"



text \<open>
  The touch at the end of \<open>post_message\<close>: the \<open>try\<close> block, whose \<open>except Exception:
  pass\<close> turns a raising \<open>update_one\<close> (and a raising \<open>ObjectId\<close>) into no change.
\<close>

definition touch_session :: "world \<Rightarrow> store \<Rightarrow> pystr \<Rightarrow> store \<times> world" where
  "touch_session w st session_id =
    (if ObjectId_is_valid session_id then
       (case ObjectId_of session_id of
          None \<Rightarrow> (st, w)
        | Some oid \<Rightarrow>
           (let (t, w) = now_utc w;
                st = st\<lparr>update_one_calls := Suc (update_one_calls st)\<rparr>
            in if update_one_raises st then (st, w)
               else (st\<lparr>studysession := update_one (studysession st) oid ''updated_at'' (DateTime t)\<rparr>, w)))
     else (st, w))"

text \<open>
  The two dict literals of \<open>post_message\<close>: \<open>user_msg\<close> holds the stripped content and
  one timestamp twice, \<open>asst_msg\<close> holds the values of two calls of \<open>datetime.now\<close>.
\<close>

definition user_msg :: "pystr \<Rightarrow> pystr \<Rightarrow> datetime \<Rightarrow> doc" where
  "user_msg session_id req_content now =
     [(''session_id'', Str session_id), (''role'', Str (lit ''user'')),
      (''content'', Str (strip req_content)), (''created_at'', DateTime now),
      (''updated_at'', DateTime now)]"

definition asst_msg :: "pystr \<Rightarrow> pystr \<Rightarrow> datetime \<Rightarrow> datetime \<Rightarrow> doc" where
  "asst_msg session_id assistant_text created updated =
     [(''session_id'', Str session_id), (''role'', Str (lit ''assistant'')),
      (''content'', Str assistant_text), (''created_at'', DateTime created),
      (''updated_at'', DateTime updated)]"

text \<open>\<open>post_message\<close>, on the path parameter and the validated \<open>req.content\<close>.\<close>

definition post_message :: "world \<Rightarrow> pystr \<Rightarrow> pystr \<Rightarrow> (error + (string \<times> doc list) list) \<times> world" where
  "post_message w session_id req_content =
    (case db w of
       None \<Rightarrow> (Inl not_configured, w)
     | Some st \<Rightarrow>
        (let (now, w) = now_utc w
         in case insert_message st (user_msg session_id req_content now) of
              (Inl e, st) \<Rightarrow> (Inl e, w\<lparr>db := Some st\<rparr>)
            | (Inr (_, user_msg'), st) \<Rightarrow>
               (let assistant_text = generate_explanation req_content;
                    (created, w) = now_utc w;
                    (updated, w) = now_utc w
                in case insert_message st (asst_msg session_id assistant_text created updated) of
                     (Inl e, st) \<Rightarrow> (Inl e, w\<lparr>db := Some st\<rparr>)
                   | (Inr (_, asst_msg'), st) \<Rightarrow>
                      (let (st, w) = touch_session w st session_id
                       in (Inr [(''messages'', [to_str_id user_msg', to_str_id asst_msg'])],
                           w\<lparr>db := Some st\<rparr>)))))"

text \<open>
  The routes: the framework validates the request model before it calls the handler, and
  a query parameter that is absent takes the default of the handler's signature.
\<close>

definition route_create_session :: "world \<Rightarrow> pystr \<Rightarrow> (error + doc) \<times> world" where
  "route_create_session w title =
    (case CreateSessionRequest title of Inl e \<Rightarrow> (Inl e, w) | Inr t \<Rightarrow> create_session w t)"

definition route_post_message :: "world \<Rightarrow> pystr \<Rightarrow> pystr \<Rightarrow> (error + (string \<times> doc list) list) \<times> world" where
  "route_post_message w session_id content =
    (case PostMessageRequest content of Inl e \<Rightarrow> (Inl e, w) | Inr c \<Rightarrow> post_message w session_id c)"



section \<open>Example worlds\<close>

text \<open>
  An empty store behind a configured handle whose calls never raise, and a clock that
  advances by one microsecond at every reading.
\<close>

definition example_store :: store where
  "example_store = \<lparr>studysession = [], message = [], next_oid = 0,
     insert_one_raises = (\<lambda>k. False), insert_one_calls = 0,
     update_one_raises = False, update_one_calls = 0\<rparr>"

definition example_world :: world where
  "example_world = \<lparr>db = Some example_store, clock = (\<lambda>k. int k), reads = 0\<rparr>"

text \<open>
  A second world: the same store with a gateway whose \<open>update_one\<close> raises, and a clock
  that has been read seven times.
\<close>

definition faulty_world :: world where
  "faulty_world = example_world\<lparr>db := Some (example_store\<lparr>update_one_raises := True\<rparr>), reads := 7\<rparr>"




definition first_insert_fails_world :: world where
  "first_insert_fails_world =
     example_world\<lparr>db := Some (example_store\<lparr>insert_one_raises := (\<lambda>k. k = 0)\<rparr>)\<rparr>"

text \<open>The documents of the \<open>message\<close> collection of a world, none without a store.\<close>

definition stored_messages :: "world \<Rightarrow> doc list" where
  "stored_messages w = (case db w of None \<Rightarrow> [] | Some st \<Rightarrow> message st)"

section \<open>Properties of the generator\<close>

lemma strip_no_leading: "strip s = c # cs \<Longrightarrow> \<not> isspace c"
proof -
  assume a: "strip s = c # cs"
  define d where "d = dropWhile isspace s"
  have r: "rev (dropWhile isspace (rev d)) = c # cs"
    using a by (simp add: strip_def d_def)
  then have ne: "d \<noteq> []" by auto
  then have h: "\<not> isspace (hd d)"
    unfolding d_def by (rule hd_dropWhile)
  have "dropWhile isspace (rev d) = rev (c # cs)"
    using r by (metis rev_rev_ident)
  then obtain pre where p: "rev d = pre @ rev (c # cs)"
    by (metis takeWhile_dropWhile_id)
  then have "d = (c # cs) @ rev pre"
    by (metis rev_append rev_rev_ident)
  then have "hd d = c" by simp
  with h show ?thesis by simp
qed

lemma strip_no_trailing: "strip s \<noteq> [] \<Longrightarrow> \<not> isspace (last (strip s))"
proof -
  assume a: "strip s \<noteq> []"
  let ?e = "dropWhile isspace (rev (dropWhile isspace s))"
  have ne: "?e \<noteq> []" using a by (simp add: strip_def)
  then have "\<not> isspace (hd ?e)" by (rule hd_dropWhile)
  moreover have "last (strip s) = hd ?e"
    using ne by (simp add: strip_def last_rev)
  ultimately show ?thesis by simp
qed

lemma dropWhile_id_hd: "xs = [] \<or> \<not> P (hd xs) \<Longrightarrow> dropWhile P xs = xs"
  by (cases xs) auto

lemma strip_idem: "strip (strip s) = strip s"
proof (cases "strip s")
  case Nil
  have "strip [] = []" by (simp add: strip_def)
  with Nil show ?thesis by simp
next
  case (Cons c cs)
  then have l: "\<not> isspace c" by (rule strip_no_leading)
  have t: "\<not> isspace (last (strip s))"
    using Cons by (intro strip_no_trailing) simp
  have 1: "dropWhile isspace (strip s) = strip s"
    using Cons l by simp
  have "hd (rev (strip s)) = last (strip s)"
    using Cons by (simp add: hd_rev)
  then have 2: "dropWhile isspace (rev (strip s)) = rev (strip s)"
    using t by (intro dropWhile_id_hd) simp
  show ?thesis
    unfolding strip_def [of "strip s"] 1 2 by simp
qed

lemma generate_explanation_unfold:
  "generate_explanation topic =
     lit ''Topic: '' @ strip topic @ lit ''\<newline>'' @
     replicate (7 + length (strip topic)) (of_char CHR ''='') @ lit ''\<newline>\<newline>'' @
     join (lit ''\<newline>\<newline>'')
      ((lit ''Quick summary\<newline>- '' @ strip topic @
           lit '' in one sentence: [A clear, simple definition].'') #
       [lit ''Key ideas\<newline>- Concept 1: what it is and why it matters\<newline>- Concept 2: how it connects\<newline>- Concept 3: common pitfalls'',
        lit ''Step-by-step breakdown\<newline>1) Start with the core definition\<newline>2) Build an intuitive picture\<newline>3) Add the formal detail\<newline>4) Work through a tiny example\<newline>5) Check your understanding'',
        lit ''Analogy\<newline>- Imagine you're explaining it to a 10-year-old using a real-life story.'',
        lit ''Worked example\<newline>- Problem: a small, realistic question about the topic\<newline>- Solution: show the steps with 1-2 short calculations or bullet points'',
        lit ''Common mistakes\<newline>- Misunderstanding A\<newline>- Misunderstanding B\<newline>- Shortcut to avoid them'',
        lit ''Rapid self-quiz\<newline>- Q1: ...\<newline>- Q2: ...\<newline>- Q3: ...\<newline>(Answer in your head first, then check with notes)'',
        lit ''Mini study plan (20 minutes)\<newline>- 5m: review summary + key ideas\<newline>- 10m: do 2 tiny problems\<newline>- 5m: reflect: what still feels fuzzy?''])"
  unfolding generate_explanation_def Let_def by (simp del: join.simps)

lemma lit_append: "lit (a @ b) = lit a @ lit b"
  by (simp add: lit_def)

lemma prefix_lit: "prefix a b \<Longrightarrow> prefix (lit a) (lit b)"
  by (auto simp: prefix_def lit_append)

lemma generate_explanation_prefix:
  "prefix (lit ''Topic: '' @ strip topic @ lit ''\<newline>'' @
      replicate (7 + length (strip topic)) (of_char CHR ''='') @ lit ''\<newline>'')
    (generate_explanation topic)"
proof -
  obtain body where g: "generate_explanation topic =
      lit ''Topic: '' @ strip topic @ lit ''\<newline>'' @
      replicate (7 + length (strip topic)) (of_char CHR ''='') @ lit ''\<newline>\<newline>'' @ body"
    using generate_explanation_unfold [of topic] by blast
  have n: "lit ''\<newline>\<newline>'' @ body = lit ''\<newline>'' @ lit ''\<newline>'' @ body"
    by (simp add: lit_def)
  show ?thesis
    unfolding g n by simp
qed

text \<open>
  Claim C5, amended. The output begins with the line \<open>Topic: \<close> followed by the
  stripped topic, then a line of exactly \<open>7 + len(topic.strip())\<close> characters \<open>=\<close>,
  which is the length of the first line. The topic as received appears nowhere in the
  header.
\<close>

theorem generate_explanation_header:
  "prefix (lit ''Topic: '' @ strip topic @ lit ''\<newline>'' @
      replicate (7 + length (strip topic)) (of_char CHR ''='') @ lit ''\<newline>'')
    (generate_explanation topic) \<and>
   length (lit ''Topic: '' @ strip topic) = 7 + length (strip topic)"
proof -
  have "length (lit ''Topic: '' @ strip topic) = 7 + length (strip topic)"
    by (simp add: lit_def)
  with generate_explanation_prefix [of topic] show ?thesis by (rule conjI)
qed

lemma strip_space_a: "strip (lit '' a'') = lit ''a''"
  by (simp add: strip_def lit_def isspace_def)

lemma strip_entropy: "strip (lit '' entropy '') = lit ''entropy''"
  by (simp add: strip_def lit_def isspace_def)

text \<open>
  Claim C5 as stated fails for a topic with surrounding whitespace: for the topic \<open>" a"\<close>
  the output does not begin with \<open>Topic:  a\<close> and nine \<open>=\<close>; it begins with
  \<open>Topic: a\<close> and eight.
\<close>

theorem generate_explanation_header_counterexample:
  "\<not> prefix (lit ''Topic: '' @ lit '' a'' @ lit ''\<newline>'' @
      replicate (7 + length (lit '' a'')) (of_char CHR ''='') @ lit ''\<newline>'')
    (generate_explanation (lit '' a'')) \<and>
   prefix (lit ''Topic: a\<newline>========\<newline>'') (generate_explanation (lit '' a''))"
proof -
  have p: "prefix (lit ''Topic: '' @ lit ''a'' @ lit ''\<newline>'' @
      replicate (7 + length (lit ''a'')) (of_char CHR ''='') @ lit ''\<newline>'')
    (generate_explanation (lit '' a''))"
    using generate_explanation_prefix [of "lit '' a''"] by (simp only: strip_space_a)
  have e: "lit ''Topic: '' @ lit ''a'' @ lit ''\<newline>'' @
      replicate (7 + length (lit ''a'')) (of_char CHR ''='') @ lit ''\<newline>'' =
      lit ''Topic: a\<newline>========\<newline>''"
    by (simp add: lit_def eval_nat_numeral)
  have q: "prefix (lit ''Topic: a\<newline>========\<newline>'') (generate_explanation (lit '' a''))"
    using p by (simp only: e)
  then obtain rest where g: "generate_explanation (lit '' a'') = lit ''Topic: a\<newline>========\<newline>'' @ rest"
    by (auto simp: prefix_def)
  have "\<not> prefix (lit ''Topic: '' @ lit '' a'' @ lit ''\<newline>'' @
      replicate (7 + length (lit '' a'')) (of_char CHR ''='') @ lit ''\<newline>'')
    (generate_explanation (lit '' a''))"
    unfolding g by (simp add: lit_def)
  with q show ?thesis by simp
qed

text \<open>
  Claim C6. For every topic the output is the header followed by eight sections, each
  after a blank line: the Quick summary section, which holds the stripped topic, and the
  seven texts \<open>static\<close>, which are the same for every topic. The eight begin with the
  names Quick summary, Key ideas, Step-by-step breakdown, Analogy, Worked example, Common
  mistakes, Rapid self-quiz and Mini study plan, in this order, and none of the seven
  holds a blank line, so none hides a further section. The last conjunct is the whole
  output for the topic \<open>" entropy "\<close>.
\<close>

theorem generate_explanation_sections:
  "(let static =
       [lit ''Key ideas\<newline>- Concept 1: what it is and why it matters\<newline>- Concept 2: how it connects\<newline>- Concept 3: common pitfalls'',
        lit ''Step-by-step breakdown\<newline>1) Start with the core definition\<newline>2) Build an intuitive picture\<newline>3) Add the formal detail\<newline>4) Work through a tiny example\<newline>5) Check your understanding'',
        lit ''Analogy\<newline>- Imagine you're explaining it to a 10-year-old using a real-life story.'',
        lit ''Worked example\<newline>- Problem: a small, realistic question about the topic\<newline>- Solution: show the steps with 1-2 short calculations or bullet points'',
        lit ''Common mistakes\<newline>- Misunderstanding A\<newline>- Misunderstanding B\<newline>- Shortcut to avoid them'',
        lit ''Rapid self-quiz\<newline>- Q1: ...\<newline>- Q2: ...\<newline>- Q3: ...\<newline>(Answer in your head first, then check with notes)'',
        lit ''Mini study plan (20 minutes)\<newline>- 5m: review summary + key ideas\<newline>- 10m: do 2 tiny problems\<newline>- 5m: reflect: what still feels fuzzy?'']
    in generate_explanation topic =
         (lit ''Topic: '' @ strip topic @ lit ''\<newline>'' @
          replicate (7 + length (strip topic)) (of_char CHR ''='')) @
         concat (map (\<lambda>sec. lit ''\<newline>\<newline>'' @ sec)
           ((lit ''Quick summary\<newline>- '' @ strip topic @
             lit '' in one sentence: [A clear, simple definition].'') # static)) \<and>
       list_all2 prefix
         (map lit [''Quick summary'', ''Key ideas'', ''Step-by-step breakdown'', ''Analogy'',
                   ''Worked example'', ''Common mistakes'', ''Rapid self-quiz'',
                   ''Mini study plan''])
         ((lit ''Quick summary\<newline>- '' @ strip topic @
           lit '' in one sentence: [A clear, simple definition].'') # static) \<and>
       list_all (\<lambda>sec. \<not> sublist (lit ''\<newline>\<newline>'') sec) static) \<and>
   generate_explanation (lit '' entropy '') =
     lit ''Topic: entropy\<newline>==============\<newline>\<newline>Quick summary\<newline>- entropy in one sentence: [A clear, simple definition].\<newline>\<newline>Key ideas\<newline>- Concept 1: what it is and why it matters\<newline>- Concept 2: how it connects\<newline>- Concept 3: common pitfalls\<newline>\<newline>Step-by-step breakdown\<newline>1) Start with the core definition\<newline>2) Build an intuitive picture\<newline>3) Add the formal detail\<newline>4) Work through a tiny example\<newline>5) Check your understanding\<newline>\<newline>Analogy\<newline>- Imagine you're explaining it to a 10-year-old using a real-life story.\<newline>\<newline>Worked example\<newline>- Problem: a small, realistic question about the topic\<newline>- Solution: show the steps with 1-2 short calculations or bullet points\<newline>\<newline>Common mistakes\<newline>- Misunderstanding A\<newline>- Misunderstanding B\<newline>- Shortcut to avoid them\<newline>\<newline>Rapid self-quiz\<newline>- Q1: ...\<newline>- Q2: ...\<newline>- Q3: ...\<newline>(Answer in your head first, then check with notes)\<newline>\<newline>Mini study plan (20 minutes)\<newline>- 5m: review summary + key ideas\<newline>- 10m: do 2 tiny problems\<newline>- 5m: reflect: what still feels fuzzy?''"
proof -
  have 1: "generate_explanation topic =
         (lit ''Topic: '' @ strip topic @ lit ''\<newline>'' @
          replicate (7 + length (strip topic)) (of_char CHR ''='')) @
         concat (map (\<lambda>sec. lit ''\<newline>\<newline>'' @ sec)
           ((lit ''Quick summary\<newline>- '' @ strip topic @
             lit '' in one sentence: [A clear, simple definition].'') #
       [lit ''Key ideas\<newline>- Concept 1: what it is and why it matters\<newline>- Concept 2: how it connects\<newline>- Concept 3: common pitfalls'',
        lit ''Step-by-step breakdown\<newline>1) Start with the core definition\<newline>2) Build an intuitive picture\<newline>3) Add the formal detail\<newline>4) Work through a tiny example\<newline>5) Check your understanding'',
        lit ''Analogy\<newline>- Imagine you're explaining it to a 10-year-old using a real-life story.'',
        lit ''Worked example\<newline>- Problem: a small, realistic question about the topic\<newline>- Solution: show the steps with 1-2 short calculations or bullet points'',
        lit ''Common mistakes\<newline>- Misunderstanding A\<newline>- Misunderstanding B\<newline>- Shortcut to avoid them'',
        lit ''Rapid self-quiz\<newline>- Q1: ...\<newline>- Q2: ...\<newline>- Q3: ...\<newline>(Answer in your head first, then check with notes)'',
        lit ''Mini study plan (20 minutes)\<newline>- 5m: review summary + key ideas\<newline>- 10m: do 2 tiny problems\<newline>- 5m: reflect: what still feels fuzzy?'']))"
    by (simp add: generate_explanation_unfold)
  have 2: "list_all2 prefix
         (map lit [''Quick summary'', ''Key ideas'', ''Step-by-step breakdown'', ''Analogy'',
                   ''Worked example'', ''Common mistakes'', ''Rapid self-quiz'',
                   ''Mini study plan''])
         ((lit ''Quick summary\<newline>- '' @ strip topic @
           lit '' in one sentence: [A clear, simple definition].'') #
       [lit ''Key ideas\<newline>- Concept 1: what it is and why it matters\<newline>- Concept 2: how it connects\<newline>- Concept 3: common pitfalls'',
        lit ''Step-by-step breakdown\<newline>1) Start with the core definition\<newline>2) Build an intuitive picture\<newline>3) Add the formal detail\<newline>4) Work through a tiny example\<newline>5) Check your understanding'',
        lit ''Analogy\<newline>- Imagine you're explaining it to a 10-year-old using a real-life story.'',
        lit ''Worked example\<newline>- Problem: a small, realistic question about the topic\<newline>- Solution: show the steps with 1-2 short calculations or bullet points'',
        lit ''Common mistakes\<newline>- Misunderstanding A\<newline>- Misunderstanding B\<newline>- Shortcut to avoid them'',
        lit ''Rapid self-quiz\<newline>- Q1: ...\<newline>- Q2: ...\<newline>- Q3: ...\<newline>(Answer in your head first, then check with notes)'',
        lit ''Mini study plan (20 minutes)\<newline>- 5m: review summary + key ideas\<newline>- 10m: do 2 tiny problems\<newline>- 5m: reflect: what still feels fuzzy?''])"
    by (simp add: prefix_lit)
  have 3: "list_all (\<lambda>sec. \<not> sublist (lit ''\<newline>\<newline>'') sec)
       [lit ''Key ideas\<newline>- Concept 1: what it is and why it matters\<newline>- Concept 2: how it connects\<newline>- Concept 3: common pitfalls'',
        lit ''Step-by-step breakdown\<newline>1) Start with the core definition\<newline>2) Build an intuitive picture\<newline>3) Add the formal detail\<newline>4) Work through a tiny example\<newline>5) Check your understanding'',
        lit ''Analogy\<newline>- Imagine you're explaining it to a 10-year-old using a real-life story.'',
        lit ''Worked example\<newline>- Problem: a small, realistic question about the topic\<newline>- Solution: show the steps with 1-2 short calculations or bullet points'',
        lit ''Common mistakes\<newline>- Misunderstanding A\<newline>- Misunderstanding B\<newline>- Shortcut to avoid them'',
        lit ''Rapid self-quiz\<newline>- Q1: ...\<newline>- Q2: ...\<newline>- Q3: ...\<newline>(Answer in your head first, then check with notes)'',
        lit ''Mini study plan (20 minutes)\<newline>- 5m: review summary + key ideas\<newline>- 10m: do 2 tiny problems\<newline>- 5m: reflect: what still feels fuzzy?'']"
    by (simp add: lit_def sublist_code)
  have ruler: "replicate (7 + length (lit ''entropy'')) c = [c, c, c, c, c, c, c, c, c, c, c, c, c, c]"
    for c :: nat
    by (simp add: lit_def eval_nat_numeral)
  have 4: "generate_explanation (lit '' entropy '') =
     lit ''Topic: entropy\<newline>==============\<newline>\<newline>Quick summary\<newline>- entropy in one sentence: [A clear, simple definition].\<newline>\<newline>Key ideas\<newline>- Concept 1: what it is and why it matters\<newline>- Concept 2: how it connects\<newline>- Concept 3: common pitfalls\<newline>\<newline>Step-by-step breakdown\<newline>1) Start with the core definition\<newline>2) Build an intuitive picture\<newline>3) Add the formal detail\<newline>4) Work through a tiny example\<newline>5) Check your understanding\<newline>\<newline>Analogy\<newline>- Imagine you're explaining it to a 10-year-old using a real-life story.\<newline>\<newline>Worked example\<newline>- Problem: a small, realistic question about the topic\<newline>- Solution: show the steps with 1-2 short calculations or bullet points\<newline>\<newline>Common mistakes\<newline>- Misunderstanding A\<newline>- Misunderstanding B\<newline>- Shortcut to avoid them\<newline>\<newline>Rapid self-quiz\<newline>- Q1: ...\<newline>- Q2: ...\<newline>- Q3: ...\<newline>(Answer in your head first, then check with notes)\<newline>\<newline>Mini study plan (20 minutes)\<newline>- 5m: review summary + key ideas\<newline>- 10m: do 2 tiny problems\<newline>- 5m: reflect: what still feels fuzzy?''"
    by (simp add: generate_explanation_unfold strip_entropy ruler) (simp add: lit_def)
  from 1 2 3 4 show ?thesis by (simp only: Let_def simp_thms)
qed

text \<open>
  Claim C10. The generator strips its argument itself, so stripping the argument
  beforehand changes nothing; the same holds for the whole handler \<open>post_message\<close>.
\<close>

theorem generate_explanation_strips_itself:
  "generate_explanation (strip topic) = generate_explanation topic \<and>
   post_message w session_id (strip content) = post_message w session_id content"
proof -
  have g: "generate_explanation (strip t) = generate_explanation t" for t
    by (simp add: generate_explanation_def strip_idem)
  have u: "user_msg session_id (strip content) t = user_msg session_id content t" for t
    by (simp add: user_msg_def strip_idem)
  have "post_message w session_id (strip content) = post_message w session_id content"
    by (simp only: post_message_def g u)
  with g show ?thesis by simp
qed

section \<open>Properties of the message service\<close>


lemma update_first_no_match: "list_all (\<lambda>d. \<not> P d) ds \<Longrightarrow> update_first P f ds = ds"
  by (induction ds) auto

lemma ObjectId_of_valid: "ObjectId_is_valid sid \<Longrightarrow> \<exists>oid. ObjectId_of sid = Some oid"
  by (auto simp: ObjectId_is_valid_def)

lemma touch_session_message: "message (fst (touch_session w st sid)) = message st"
  by (auto simp: touch_session_def now_utc_def Let_def split: option.splits)

lemma touch_session_studysession:
  "studysession (fst (touch_session w st sid)) =
     (case ObjectId_of sid of
        Some oid \<Rightarrow>
          if ObjectId_is_valid sid \<and> \<not> update_one_raises st
          then update_one (studysession st) oid ''updated_at'' (DateTime (clock w (reads w)))
          else studysession st
      | None \<Rightarrow> studysession st)"
  by (auto simp: touch_session_def now_utc_def Let_def split: option.splits)

lemma touch_session_calls:
  "update_one_calls (fst (touch_session w st sid)) =
     (if ObjectId_is_valid sid then Suc (update_one_calls st) else update_one_calls st)"
  by (auto simp: touch_session_def now_utc_def Let_def ObjectId_is_valid_def split: option.splits)

lemma touch_session_reads:
  "reads (snd (touch_session w st sid)) =
     (if ObjectId_is_valid sid then Suc (reads w) else reads w)"
  by (auto simp: touch_session_def now_utc_def Let_def ObjectId_is_valid_def split: option.splits)

lemma insert_message_raises:
  "insert_one_raises st (insert_one_calls st) \<Longrightarrow>
   insert_message st d = (Inl PyMongoError, st\<lparr>insert_one_calls := Suc (insert_one_calls st)\<rparr>)"
  by (simp add: insert_message_def insert_one_def Let_def)

lemma insert_message_user:
  "\<not> insert_one_raises st (insert_one_calls st) \<Longrightarrow>
   insert_message st (user_msg sid c t) =
     (Inr (ObjectId (next_oid st), user_msg sid c t @ [(''_id'', ObjectId (next_oid st))]),
      st\<lparr>insert_one_calls := Suc (insert_one_calls st),
         message := message st @ [user_msg sid c t @ [(''_id'', ObjectId (next_oid st))]],
         next_oid := Suc (next_oid st)\<rparr>)"
  by (simp add: insert_message_def insert_one_def user_msg_def Let_def)

lemma insert_message_asst:
  "\<not> insert_one_raises st (insert_one_calls st) \<Longrightarrow>
   insert_message st (asst_msg sid x t t') =
     (Inr (ObjectId (next_oid st), asst_msg sid x t t' @ [(''_id'', ObjectId (next_oid st))]),
      st\<lparr>insert_one_calls := Suc (insert_one_calls st),
         message := message st @ [asst_msg sid x t t' @ [(''_id'', ObjectId (next_oid st))]],
         next_oid := Suc (next_oid st)\<rparr>)"
  by (simp add: insert_message_def insert_one_def asst_msg_def Let_def)

lemma post_message_first_insert_raises:
  assumes "db w = Some st" and "insert_one_raises st (insert_one_calls st)"
  shows "post_message w sid c =
    (Inl PyMongoError,
     w\<lparr>reads := Suc (reads w),
       db := Some (st\<lparr>insert_one_calls := Suc (insert_one_calls st)\<rparr>)\<rparr>)"
  using assms by (simp add: post_message_def now_utc_def insert_message_raises)

lemma post_message_second_insert_raises:
  assumes "db w = Some st" and "\<not> insert_one_raises st (insert_one_calls st)"
    and "insert_one_raises st (Suc (insert_one_calls st))"
  shows "post_message w sid c =
    (Inl PyMongoError,
     w\<lparr>reads := Suc (Suc (Suc (reads w))),
       db := Some (st\<lparr>insert_one_calls := Suc (Suc (insert_one_calls st)),
         message := message st @
           [user_msg sid c (clock w (reads w)) @ [(''_id'', ObjectId (next_oid st))]],
         next_oid := Suc (next_oid st)\<rparr>)\<rparr>)"
  using assms
  by (simp add: post_message_def now_utc_def insert_message_user insert_message_raises Let_def)

lemma post_message_unfold:
  assumes "db w = Some st" and "\<not> insert_one_raises st (insert_one_calls st)"
    and "\<not> insert_one_raises st (Suc (insert_one_calls st))"
  shows "post_message w sid c =
    (let u = user_msg sid c (clock w (reads w)) @ [(''_id'', ObjectId (next_oid st))];
         a = asst_msg sid (generate_explanation c) (clock w (Suc (reads w)))
               (clock w (Suc (Suc (reads w)))) @ [(''_id'', ObjectId (Suc (next_oid st)))];
         r = touch_session (w\<lparr>reads := Suc (Suc (Suc (reads w)))\<rparr>)
               (st\<lparr>insert_one_calls := Suc (Suc (insert_one_calls st)),
                   message := message st @ [u, a], next_oid := Suc (Suc (next_oid st))\<rparr>) sid
     in (Inr [(''messages'', [to_str_id u, to_str_id a])], (snd r)\<lparr>db := Some (fst r)\<rparr>))"
  using assms
  by (simp add: post_message_def now_utc_def insert_message_user insert_message_asst Let_def
      split: prod.splits)

lemma route_post_message_valid:
  "PostMessageRequest content = Inr c \<Longrightarrow>
   route_post_message w sid content = post_message w sid content"
  by (auto simp: route_post_message_def PostMessageRequest_def split: if_splits)

lemma route_post_message_result:
  assumes "db w = Some st" and "PostMessageRequest content = Inr c"
    and "\<not> insert_one_raises st (insert_one_calls st)"
    and "\<not> insert_one_raises st (Suc (insert_one_calls st))"
  shows "\<exists>resp w' st'.
    route_post_message w sid content = (Inr resp, w') \<and> db w' = Some st' \<and>
    message st' = message st @
       [user_msg sid content (clock w (reads w)) @ [(''_id'', ObjectId (next_oid st))],
        asst_msg sid (generate_explanation content) (clock w (Suc (reads w)))
          (clock w (Suc (Suc (reads w)))) @ [(''_id'', ObjectId (Suc (next_oid st)))]] \<and>
    studysession st' =
       (case ObjectId_of sid of
          Some oid \<Rightarrow>
            if ObjectId_is_valid sid \<and> \<not> update_one_raises st
            then update_one (studysession st) oid ''updated_at''
                   (DateTime (clock w (Suc (Suc (Suc (reads w))))))
            else studysession st
        | None \<Rightarrow> studysession st) \<and>
    update_one_calls st' =
       (if ObjectId_is_valid sid then Suc (update_one_calls st) else update_one_calls st) \<and>
    reads w' = (if ObjectId_is_valid sid then reads w + 4 else reads w + 3)"
proof -
  define u where "u = user_msg sid content (clock w (reads w)) @ [(''_id'', ObjectId (next_oid st))]"
  define a where "a = asst_msg sid (generate_explanation content) (clock w (Suc (reads w)))
          (clock w (Suc (Suc (reads w)))) @ [(''_id'', ObjectId (Suc (next_oid st)))]"
  define r where "r = touch_session (w\<lparr>reads := Suc (Suc (Suc (reads w)))\<rparr>)
      (st\<lparr>insert_one_calls := Suc (Suc (insert_one_calls st)),
          message := message st @ [u, a], next_oid := Suc (Suc (next_oid st))\<rparr>) sid"
  have pm: "route_post_message w sid content =
      (Inr [(''messages'', [to_str_id u, to_str_id a])], (snd r)\<lparr>db := Some (fst r)\<rparr>)"
    by (simp add: route_post_message_valid [OF assms(2)] post_message_unfold [OF assms(1,3,4)]
        Let_def u_def a_def r_def)
  have d: "db ((snd r)\<lparr>db := Some (fst r)\<rparr>) = Some (fst r)"
    by simp
  have m: "message (fst r) = message st @ [u, a]"
    by (simp add: r_def touch_session_message)
  have s: "studysession (fst r) =
       (case ObjectId_of sid of
          Some oid \<Rightarrow>
            if ObjectId_is_valid sid \<and> \<not> update_one_raises st
            then update_one (studysession st) oid ''updated_at''
                   (DateTime (clock w (Suc (Suc (Suc (reads w))))))
            else studysession st
        | None \<Rightarrow> studysession st)"
    by (auto simp: r_def touch_session_studysession split: option.splits)
  have k: "update_one_calls (fst r) =
       (if ObjectId_is_valid sid then Suc (update_one_calls st) else update_one_calls st)"
    by (simp add: r_def touch_session_calls)
  have t: "reads ((snd r)\<lparr>db := Some (fst r)\<rparr>) =
       (if ObjectId_is_valid sid then reads w + 4 else reads w + 3)"
    by (simp add: r_def touch_session_reads)
  show ?thesis
    using pm d m s k t unfolding u_def a_def by blast
qed

lemma example_accepts:
  "db example_world = Some example_store"
  "PostMessageRequest (lit ''entropy'') = Inr (lit ''entropy'')"
  "PostMessageRequest (lit '' entropy '') = Inr (lit '' entropy '')"
  by (simp_all add: example_world_def PostMessageRequest_def lit_def)

lemma example_store_empty:
  "message example_store = []" "studysession example_store = []"
  "update_one_calls example_store = 0" "update_one_raises example_store = False"
  "insert_one_raises example_store k = False" "next_oid example_store = 0"
  by (simp_all add: example_store_def)

lemma example_inserts:
  "\<not> insert_one_raises example_store (insert_one_calls example_store)"
  "\<not> insert_one_raises example_store (Suc (insert_one_calls example_store))"
  by (simp_all add: example_store_def)

lemma user_msg_fields:
  "map_of (user_msg sid c t @ e) ''role'' = Some (Str (lit ''user''))"
  "map_of (user_msg sid c t @ e) ''content'' = Some (Str (strip c))"
  "map_of (user_msg sid c t @ e) ''created_at'' = Some (DateTime t)"
  "map_of (user_msg sid c t @ e) ''updated_at'' = Some (DateTime t)"
  "map_of (user_msg sid c t @ e) ''session_id'' = Some (Str sid)"
  by (simp_all add: user_msg_def)

lemma asst_msg_fields:
  "map_of (asst_msg sid x t t' @ e) ''role'' = Some (Str (lit ''assistant''))"
  "map_of (asst_msg sid x t t' @ e) ''content'' = Some (Str x)"
  "map_of (asst_msg sid x t t' @ e) ''created_at'' = Some (DateTime t)"
  "map_of (asst_msg sid x t t' @ e) ''updated_at'' = Some (DateTime t')"
  "map_of (asst_msg sid x t t' @ e) ''session_id'' = Some (Str sid)"
  by (simp_all add: asst_msg_def)






text \<open>
  Claim C2. For a call the service carries out (a configured store, a content that
  passes validation, two calls of \<open>insert_one\<close> that do not raise), the stored user
  message holds the stripped content and the stored assistant message holds
  \<open>generate_explanation\<close> of the content as received.
\<close>

theorem post_message_stored_contents:
  assumes "db w = Some st" and "PostMessageRequest content = Inr c"
    and "\<not> insert_one_raises st (insert_one_calls st)"
    and "\<not> insert_one_raises st (Suc (insert_one_calls st))"
  shows "\<exists>resp w' st' u a.
     route_post_message w session_id content = (Inr resp, w') \<and> db w' = Some st' \<and>
     message st' = message st @ [u, a] \<and>
     map_of u ''content'' = Some (Str (strip content)) \<and>
     map_of a ''content'' = Some (Str (generate_explanation content))"
proof -
  let ?u = "user_msg session_id content (clock w (reads w)) @ [(''_id'', ObjectId (next_oid st))]"
  let ?a = "asst_msg session_id (generate_explanation content) (clock w (Suc (reads w)))
          (clock w (Suc (Suc (reads w)))) @ [(''_id'', ObjectId (Suc (next_oid st)))]"
  obtain resp w' st' where
    r: "route_post_message w session_id content = (Inr resp, w')" and d: "db w' = Some st'" and
    m: "message st' = message st @ [?u, ?a]"
    using route_post_message_result [OF assms, of session_id] by blast
  have "route_post_message w session_id content = (Inr resp, w') \<and> db w' = Some st' \<and>
     message st' = message st @ [?u, ?a] \<and>
     map_of ?u ''content'' = Some (Str (strip content)) \<and>
     map_of ?a ''content'' = Some (Str (generate_explanation content))"
    using r d m by (simp only: user_msg_fields asst_msg_fields simp_thms)
  then show ?thesis by blast
qed

theorem post_message_stored_contents_witness:
  "db example_world = Some example_store \<and>
   PostMessageRequest (lit '' entropy '') = Inr (lit '' entropy '') \<and>
   \<not> insert_one_raises example_store (insert_one_calls example_store) \<and>
   \<not> insert_one_raises example_store (Suc (insert_one_calls example_store)) \<and>
   (\<exists>resp w' st' u a.
     route_post_message example_world (lit ''s1'') (lit '' entropy '') = (Inr resp, w') \<and>
     db w' = Some st' \<and> message st' = [u, a] \<and>
     map_of u ''content'' = Some (Str (lit ''entropy'')) \<and>
     map_of a ''content'' = Some (Str (generate_explanation (lit '' entropy ''))))"
  using post_message_stored_contents [OF example_accepts(1,3) example_inserts, of "lit ''s1''"]
  by (simp add: example_accepts example_inserts example_store_empty strip_entropy)

text \<open>
  Claim C4, evaluated in the example world, whose clock advances at every reading: the
  assistant message is stamped by two readings of the clock, so its \<open>created_at\<close> is 1
  and its \<open>updated_at\<close> is 2.
\<close>

theorem post_message_assistant_two_readings:
  "\<exists>resp w' st' u a.
     route_post_message example_world (lit ''s1'') (lit ''entropy'') = (Inr resp, w') \<and>
     db w' = Some st' \<and> message st' = [u, a] \<and>
     map_of a ''role'' = Some (Str (lit ''assistant'')) \<and>
     map_of a ''created_at'' = Some (DateTime 1) \<and>
     map_of a ''updated_at'' = Some (DateTime 2)"
proof -
  let ?u = "user_msg (lit ''s1'') (lit ''entropy'') 0 @ [(''_id'', ObjectId 0)]"
  let ?a = "asst_msg (lit ''s1'') (generate_explanation (lit ''entropy'')) 1 2 @
      [(''_id'', ObjectId (Suc 0))]"
  have cl: "clock example_world = (\<lambda>k. int k)" "reads example_world = 0"
    by (simp_all add: example_world_def)
  obtain resp w' st' where
    r: "route_post_message example_world (lit ''s1'') (lit ''entropy'') = (Inr resp, w')" and
    d: "db w' = Some st'" and
    m: "message st' = [?u, ?a]"
    using route_post_message_result [OF example_accepts(1,2) example_inserts, of "lit ''s1''"]
    by (auto simp: cl example_store_empty)
  have "route_post_message example_world (lit ''s1'') (lit ''entropy'') = (Inr resp, w') \<and>
     db w' = Some st' \<and> message st' = [?u, ?a] \<and>
     map_of ?a ''role'' = Some (Str (lit ''assistant'')) \<and>
     map_of ?a ''created_at'' = Some (DateTime 1) \<and>
     map_of ?a ''updated_at'' = Some (DateTime 2)"
    using r d m by (simp only: asst_msg_fields simp_thms)
  then show ?thesis by blast
qed

text \<open>
  Claim C8, amended. On a configured store whose two calls of \<open>insert_one\<close> do not
  raise, a call with a content that passes validation succeeds and inserts both messages
  for every \<open>session_id\<close>. \<open>update_one\<close> is called (and the clock read a fourth time)
  exactly when \<open>ObjectId.is_valid(session_id)\<close> holds. The \<open>studysession\<close> collection
  is unchanged when the identifier is not valid, when \<open>update_one\<close> raises, and when no
  stored session has that identifier.
\<close>

theorem post_message_touch_is_best_effort:
  assumes "db w = Some st" and "PostMessageRequest content = Inr c"
    and "\<not> insert_one_raises st (insert_one_calls st)"
    and "\<not> insert_one_raises st (Suc (insert_one_calls st))"
  shows "\<exists>resp w' st' u a.
     route_post_message w session_id content = (Inr resp, w') \<and> db w' = Some st' \<and>
     message st' = message st @ [u, a] \<and>
     update_one_calls st' =
       (if ObjectId_is_valid session_id then Suc (update_one_calls st) else update_one_calls st) \<and>
     reads w' = (if ObjectId_is_valid session_id then reads w + 4 else reads w + 3) \<and>
     (\<not> ObjectId_is_valid session_id \<longrightarrow> studysession st' = studysession st) \<and>
     (update_one_raises st \<longrightarrow> studysession st' = studysession st) \<and>
     (\<forall>oid. ObjectId_of session_id = Some oid \<longrightarrow>
        list_all (\<lambda>d. \<not> has_id oid d) (studysession st) \<longrightarrow>
        studysession st' = studysession st)"
proof -
  obtain resp w' st' u a where
    r: "route_post_message w session_id content = (Inr resp, w')" and d: "db w' = Some st'" and
    m: "message st' = message st @ [u, a]" and
    s: "studysession st' =
       (case ObjectId_of session_id of
          Some oid \<Rightarrow>
            if ObjectId_is_valid session_id \<and> \<not> update_one_raises st
            then update_one (studysession st) oid ''updated_at''
                   (DateTime (clock w (Suc (Suc (Suc (reads w))))))
            else studysession st
        | None \<Rightarrow> studysession st)" and
    k: "update_one_calls st' =
       (if ObjectId_is_valid session_id then Suc (update_one_calls st) else update_one_calls st)" and
    t: "reads w' = (if ObjectId_is_valid session_id then reads w + 4 else reads w + 3)"
    using route_post_message_result [OF assms, of session_id] by blast
  have 1: "\<not> ObjectId_is_valid session_id \<longrightarrow> studysession st' = studysession st"
    by (simp add: s split: option.splits)
  have 2: "update_one_raises st \<longrightarrow> studysession st' = studysession st"
    by (simp add: s split: option.splits)
  have 3: "\<forall>oid. ObjectId_of session_id = Some oid \<longrightarrow>
        list_all (\<lambda>d. \<not> has_id oid d) (studysession st) \<longrightarrow>
        studysession st' = studysession st"
    by (simp add: s update_one_def update_first_no_match)
  from r d m k t 1 2 3 show ?thesis by blast
qed

lemma whitespace_id_valid:
  "ObjectId_is_valid (lit ''00 00 00 00 00 00 00 00 '')"
  "ObjectId_of (lit ''00 00 00 00 00 00 00 00 '') = Some [0, 0, 0, 0, 0, 0, 0, 0]"
  by (simp_all add: ObjectId_is_valid_def ObjectId_of_def lit_def hexval_def ascii_space_def)

theorem post_message_touch_is_best_effort_witness:
  "db faulty_world = Some (example_store\<lparr>update_one_raises := True\<rparr>) \<and>
   PostMessageRequest (lit ''entropy'') = Inr (lit ''entropy'') \<and>
   \<not> insert_one_raises (example_store\<lparr>update_one_raises := True\<rparr>)
       (insert_one_calls (example_store\<lparr>update_one_raises := True\<rparr>)) \<and>
   \<not> insert_one_raises (example_store\<lparr>update_one_raises := True\<rparr>)
       (Suc (insert_one_calls (example_store\<lparr>update_one_raises := True\<rparr>))) \<and>
   ObjectId_is_valid (lit ''00 00 00 00 00 00 00 00 '') \<and>
   (\<exists>resp w' st' u a.
     route_post_message faulty_world (lit ''00 00 00 00 00 00 00 00 '') (lit ''entropy'') =
       (Inr resp, w') \<and>
     db w' = Some st' \<and> message st' = [u, a] \<and> update_one_calls st' = 1 \<and>
     reads w' = 11 \<and> studysession st' = [])"
proof -
  let ?st = "example_store\<lparr>update_one_raises := True\<rparr>"
  have h: "db faulty_world = Some ?st"
    by (simp add: faulty_world_def)
  have i: "\<not> insert_one_raises ?st (insert_one_calls ?st)"
    "\<not> insert_one_raises ?st (Suc (insert_one_calls ?st))"
    by (simp_all add: example_store_def)
  have e: "message ?st = []" "studysession ?st = []" "update_one_calls ?st = 0"
    "update_one_raises ?st" "reads faulty_world = 7"
    by (simp_all add: example_store_def faulty_world_def)
  show ?thesis
    using post_message_touch_is_best_effort [OF h example_accepts(2) i,
        of "lit ''00 00 00 00 00 00 00 00 ''"]
    by (simp add: h i e example_accepts example_inserts whitespace_id_valid)
qed

text \<open>
  Claim C8 as stated fails: only an exception of the touch is swallowed. When the first
  \<open>insert_one\<close> raises, the call with a well-formed identifier and an accepted content
  fails and stores no message.
\<close>

theorem post_message_touch_is_best_effort_counterexample:
  "PostMessageRequest (lit ''entropy'') = Inr (lit ''entropy'') \<and>
   fst (route_post_message first_insert_fails_world (lit ''0123456789abcdef01234567'')
     (lit ''entropy'')) = Inl PyMongoError \<and>
   stored_messages (snd (route_post_message first_insert_fails_world
     (lit ''0123456789abcdef01234567'') (lit ''entropy''))) = []"
proof -
  let ?st = "example_store\<lparr>insert_one_raises := (\<lambda>k. k = 0)\<rparr>"
  have f: "db first_insert_fails_world = Some ?st"
    "insert_one_raises ?st (insert_one_calls ?st)"
    by (simp_all add: first_insert_fails_world_def example_store_def)
  have 1: "route_post_message first_insert_fails_world (lit ''0123456789abcdef01234567'')
      (lit ''entropy'') =
    (Inl PyMongoError,
     first_insert_fails_world\<lparr>reads := Suc (reads first_insert_fails_world),
       db := Some (?st\<lparr>insert_one_calls := Suc (insert_one_calls ?st)\<rparr>)\<rparr>)"
    by (simp only: route_post_message_valid [OF example_accepts(2)]
        post_message_first_insert_raises [OF f])
  show ?thesis
    unfolding 1 by (simp add: example_accepts stored_messages_def example_store_def)
qed

section \<open>Validation and limits\<close>

lemma create_session_unfold:
  assumes "db w = Some st" and "\<not> insert_one_raises st (insert_one_calls st)"
  shows "create_session w t =
    (Inr [(''id'', StrOf (ObjectId (next_oid st))), (''title'', Str (strip t))],
     w\<lparr>reads := Suc (reads w),
       db := Some (st\<lparr>studysession := studysession st @
                 [[(''title'', Str (strip t)), (''created_at'', DateTime (clock w (reads w))),
                   (''updated_at'', DateTime (clock w (reads w))),
                   (''_id'', ObjectId (next_oid st))]],
               next_oid := Suc (next_oid st),
               insert_one_calls := Suc (insert_one_calls st)\<rparr>)\<rparr>)"
  using assms
  by (simp add: create_session_def now_utc_def insert_studysession_def insert_one_def Let_def
      py_str_def)

lemma create_session_raises:
  assumes "db w = Some st" and "insert_one_raises st (insert_one_calls st)"
  shows "fst (create_session w t) = Inl PyMongoError"
  using assms
  by (simp add: create_session_def now_utc_def insert_studysession_def insert_one_def Let_def)

lemma create_session_no_validation_error: "fst (create_session w t) \<noteq> Inl ValidationError"
proof (cases "db w")
  case None
  then show ?thesis by (simp add: create_session_def not_configured_def)
next
  case (Some st)
  then show ?thesis
    by (cases "insert_one_raises st (insert_one_calls st)")
      (simp_all add: create_session_unfold create_session_raises)
qed

lemma post_message_no_validation_error: "fst (post_message w sid c) \<noteq> Inl ValidationError"
proof (cases "db w")
  case None
  then show ?thesis by (simp add: post_message_def not_configured_def)
next
  case (Some st)
  show ?thesis
  proof (cases "insert_one_raises st (insert_one_calls st)")
    case True
    with Some show ?thesis by (simp add: post_message_first_insert_raises)
  next
    case False
    with Some show ?thesis
      by (cases "insert_one_raises st (Suc (insert_one_calls st))")
        (simp_all add: post_message_second_insert_raises post_message_unfold Let_def)
  qed
qed

text \<open>
  Claim C3, amended. The route of \<open>create_session\<close> answers with a validation error
  exactly when the title as received is empty or longer than 200; the route of
  \<open>post_message\<close> exactly when the content as received is empty. Stripping happens after
  validation.
\<close>

theorem validation_checks_received_length:
  "(fst (route_create_session w title) = Inl ValidationError) =
     (\<not> (1 \<le> length title \<and> length title \<le> 200)) \<and>
   (fst (route_post_message w session_id content) = Inl ValidationError) =
     (length content < 1)"
proof -
  have 1: "(fst (route_create_session w title) = Inl ValidationError) =
     (\<not> (1 \<le> length title \<and> length title \<le> 200))"
    using create_session_no_validation_error [of w title]
    by (simp add: route_create_session_def CreateSessionRequest_def)
  have 2: "(fst (route_post_message w session_id content) = Inl ValidationError) =
     (length content < 1)"
    using post_message_no_validation_error [of w session_id content]
    by (cases content) (simp_all add: route_post_message_def PostMessageRequest_def)
  from 1 2 show ?thesis by (rule conjI)
qed

lemma strip_blank: "strip (lit ''   '') = []" "strip (lit '' '') = []"
  by (simp_all add: strip_def lit_def isspace_def)

lemma strip_long: "strip (replicate 200 97 @ [32]) = replicate 200 97"
proof -
  have a: "\<not> isspace 97" "isspace 32" by (simp_all add: isspace_def)
  have 1: "dropWhile isspace (replicate 200 97 @ [32]) = replicate 200 97 @ [32]"
    by (simp add: dropWhile_append a dropWhile_replicate)
  have 2: "rev (replicate 200 97 @ [32::nat]) = 32 # replicate 200 97"
    by simp
  show ?thesis
    by (simp only: strip_def 1 2) (simp add: a dropWhile_replicate)
qed

text \<open>
  Claim C3 as stated fails: the title of three spaces is accepted although its stripped
  length is 0, a title of 200 letters and a trailing space is rejected although its
  stripped length is 200, and the content of one space is accepted.
\<close>

theorem validation_of_trimmed_length_counterexample:
  "length (strip (lit ''   '')) = 0 \<and>
   fst (route_create_session example_world (lit ''   '')) =
     Inr [(''id'', StrOf (ObjectId 0)), (''title'', Str [])] \<and>
   length (strip (replicate 200 97 @ [32])) = 200 \<and>
   fst (route_create_session example_world (replicate 200 97 @ [32])) = Inl ValidationError \<and>
   length (strip (lit '' '')) = 0 \<and>
   fst (route_post_message example_world (lit ''s1'') (lit '' '')) \<noteq> Inl ValidationError"
proof -
  have 1: "fst (route_create_session example_world (lit ''   '')) =
     Inr [(''id'', StrOf (ObjectId 0)), (''title'', Str [])]"
    by (simp add: route_create_session_def CreateSessionRequest_def
        create_session_unfold [OF example_accepts(1) example_inserts(1)] strip_blank)
      (simp add: lit_def example_store_def)
  have 2: "fst (route_create_session example_world (replicate 200 97 @ [32])) = Inl ValidationError"
    by (simp add: route_create_session_def CreateSessionRequest_def)
  have 3: "fst (route_post_message example_world (lit ''s1'') (lit '' '')) \<noteq> Inl ValidationError"
    using post_message_no_validation_error [of example_world "lit ''s1''" "lit '' ''"]
    by (simp add: route_post_message_def PostMessageRequest_def lit_def)
  show ?thesis
    by (simp only: 1 2 3 strip_blank strip_long) simp
qed



end
